theory Spec2Isabelle
  imports Main
begin

section \<open>TinyLink: the redirect resolver and the Express application\<close>

text \<open>
  The development embeds three source files of the repository: the redirect controller
  (\<^verbatim>\<open>redirect\<close>, controllers/redirectController.js), the route table of
  \<^verbatim>\<open>src/server.js\<close> with its error-handling and 404 middleware, and the
  analytics router \<^verbatim>\<open>src/routes/analytics.js\<close>.
\<close>

subsection \<open>Data model\<close>

text \<open>
  The Link row as Prisma returns it. \<^verbatim>\<open>expiresAt\<close> is an optional DateTime; it is
  kept as its time value (milliseconds since the epoch), which is what the comparison of
  two JavaScript dates compares. The primary key \<^verbatim>\<open>id\<close> is named \<open>link_id\<close>
  here.
\<close>

record link =
  link_id :: string
  shortCode :: string
  originalUrl :: string
  title :: "string option"
  description :: "string option"
  clicks :: int
  isActive :: bool
  expiresAt :: "int option"

text \<open>
  A thrown JavaScript value, with the three properties the error-handling middleware
  reads; each may be undefined.
\<close>

record error =
  status :: "nat option"
  message :: "string option"
  stack :: "string option"

text \<open>
  The Express request, as far as the handlers under study read it: the route parameter
  \<^verbatim>\<open>req.params.shortCode\<close> that Express binds for the route
  \<^verbatim>\<open>/:shortCode\<close>, the request URL, the headers and the peer address.
\<close>

record request =
  url :: string
  params_shortCode :: string
  headers :: "(string \<times> string) list"
  ip :: "string option"

text \<open>The analytics row written for a click.\<close>

record clickEvent =
  linkId :: string
  ipAddress :: "string option"
  userAgent :: "string option"
  referer :: "string option"
  clickedAt :: int

text \<open>The persistent store: the Link table and the analytics table.\<close>

record db =
  links :: "link list"
  clickEvents :: "clickEvent list"

text \<open>
  What a request handler cannot control: the clock read by \<^verbatim>\<open>new Date()\<close>, the
  value of \<^verbatim>\<open>process.env.NODE_ENV\<close>, and whether the Prisma call of the
  lookup rejects (for instance because the database is unreachable), with which error.
\<close>

record env =
  now :: int
  node_env :: "string option"
  lookup_fault :: "error option"

subsection \<open>Responses and effects\<close>

datatype jval = JBool bool | JStr string

type_synonym json = "(string \<times> jval) list"

text \<open>
  \<^verbatim>\<open>res.status(n).send(text)\<close>, \<^verbatim>\<open>res.status(n).json(obj)\<close> and
  \<^verbatim>\<open>res.redirect(n, url)\<close>, as a GET request is answered. \<open>ErrorPage n s\<close> is
  the HTML page of Express's own final error handler, which answers when an
  error-handling middleware throws; \<open>s\<close> tells whether the page shows a stack.
\<close>

datatype response = Send nat string | Json nat json | Redirect nat string | ErrorPage nat bool

text \<open>A controller either answers or hands an error to \<^verbatim>\<open>next\<close>.\<close>

datatype outcome = Responded response | NextErr error

text \<open>
  The calls a handler makes on its collaborators, in the order it makes them: the store
  lookup, the call of \<^verbatim>\<open>trackClick\<close>, \<^verbatim>\<open>console.error\<close> on a
  rejected promise, and \<^verbatim>\<open>console.error(err.stack)\<close> of the error-handling
  middleware.
\<close>

datatype effect =
    FindUnique string
  | TrackClick string request
  | ConsoleError error
  | ConsoleErrorStack "string option"

text \<open>
  \<^verbatim>\<open>trackClick\<close> (middleware/analytics) is an asynchronous function whose body is
  not part of the sources at hand: the controller is parametrised by it. Called with the
  link id and the request it returns a promise; the parameter gives the store the
  settled promise leaves behind and, when the promise rejects, the reason.
\<close>

type_synonym tracker = "string \<Rightarrow> request \<Rightarrow> db \<Rightarrow> db \<times> error option"

subsection \<open>The redirect controller\<close>

text \<open>\<^verbatim>\<open>prisma.link.findUnique({ where: { shortCode } })\<close>: the row or null, or a rejection.\<close>

definition findUnique :: "env \<Rightarrow> db \<Rightarrow> string \<Rightarrow> error + link option" where
  "findUnique ev d code =
     (case lookup_fault ev of
        Some e \<Rightarrow> Inl e
      | None \<Rightarrow> Inr (find (\<lambda>l. shortCode l = code) (links d)))"

text \<open>
  \<^verbatim>\<open>link.expiresAt && new Date(link.expiresAt) < new Date()\<close>: a null
  \<^verbatim>\<open>expiresAt\<close> is falsy, a date is truthy and is compared with the clock.
\<close>

definition expired :: "int \<Rightarrow> link \<Rightarrow> bool" where
  "expired t l = (case expiresAt l of None \<Rightarrow> False | Some e \<Rightarrow> e < t)"

definition notFound :: response where
  "notFound = Send 404 ''Not Found''"

text \<open>
  The controller, from the request to the settled promise. Its result is the answer (or
  the error passed to \<^verbatim>\<open>next\<close>), the store once the promise of
  \<^verbatim>\<open>trackClick\<close> has settled, and the trace of calls. The promise is not
  awaited: the answer is fixed by the line
  \<^verbatim>\<open>res.redirect(302, link.originalUrl)\<close> whatever the promise does, and a
  rejection only reaches \<^verbatim>\<open>console.error\<close>.
\<close>

definition redirect :: "tracker \<Rightarrow> env \<Rightarrow> db \<Rightarrow> request \<Rightarrow> outcome \<times> db \<times> effect list" where
  "redirect trackClick ev d req =
     (let code = params_shortCode req in
      case findUnique ev d code of
        Inl e \<Rightarrow> (NextErr e, d, [FindUnique code])
      | Inr None \<Rightarrow> (Responded notFound, d, [FindUnique code])
      | Inr (Some l) \<Rightarrow>
          if \<not> isActive l then (Responded notFound, d, [FindUnique code])
          else if expired (now ev) l then (Responded notFound, d, [FindUnique code])
          else
            (case trackClick (link_id l) req d of
               (d', r) \<Rightarrow>
                 (Responded (Redirect 302 (originalUrl l)), d',
                  [FindUnique code, TrackClick (link_id l) req]
                    @ (case r of None \<Rightarrow> [] | Some e \<Rightarrow> [ConsoleError e]))))"

text \<open>
  The same controller in two steps, as the event loop runs it. A promise that the
  controller leaves pending is the call \<^verbatim>\<open>trackClick(link.id, req)\<close>, whose result
  is not awaited.
\<close>

datatype task = Track string request

text \<open>
  The controller up to the moment it has answered (or has called \<^verbatim>\<open>next\<close>). A
  call that is awaited has settled by then and its result is used: the lookup. A call
  that is not awaited has only been started: \<^verbatim>\<open>trackClick(...)\<close> returns its
  promise and the next statement, \<^verbatim>\<open>res.redirect\<close>, runs at once, before any
  callback of the promise can. So the result is the answer, the calls made, and the
  promise still pending, if there is one; what the tracker does is no argument of this
  function, and the store is as it was.
\<close>

definition redirect_handler :: "env \<Rightarrow> db \<Rightarrow> request \<Rightarrow> outcome \<times> effect list \<times> task option" where
  "redirect_handler ev d req =
     (let code = params_shortCode req in
      case findUnique ev d code of
        Inl e \<Rightarrow> (NextErr e, [FindUnique code], None)
      | Inr None \<Rightarrow> (Responded notFound, [FindUnique code], None)
      | Inr (Some l) \<Rightarrow>
          if \<not> isActive l then (Responded notFound, [FindUnique code], None)
          else if expired (now ev) l then (Responded notFound, [FindUnique code], None)
          else
            (Responded (Redirect 302 (originalUrl l)),
             [FindUnique code, TrackClick (link_id l) req],
             Some (Track (link_id l) req)))"

text \<open>
  Later the pending promise settles: the tracker has worked on the store, and
  \<^verbatim>\<open>.catch(console.error)\<close> logs a rejection. Nothing here reaches the answer.
\<close>

definition settle :: "tracker \<Rightarrow> task option \<Rightarrow> db \<Rightarrow> db \<times> effect list" where
  "settle trackClick p d =
     (case p of
        None \<Rightarrow> (d, [])
      | Some (Track lid req) \<Rightarrow>
          (case trackClick lid req d of
             (d', r) \<Rightarrow> (d', case r of None \<Rightarrow> [] | Some e \<Rightarrow> [ConsoleError e])))"

text \<open>The parts of a controller result.\<close>

definition reply :: "outcome \<times> db \<times> effect list \<Rightarrow> outcome" where
  "reply r = fst r"

definition store_after :: "outcome \<times> db \<times> effect list \<Rightarrow> db" where
  "store_after r = fst (snd r)"

definition trace :: "outcome \<times> db \<times> effect list \<Rightarrow> effect list" where
  "trace r = snd (snd r)"

text \<open>The calls of \<^verbatim>\<open>trackClick\<close> in a trace.\<close>

definition is_track :: "effect \<Rightarrow> bool" where
  "is_track e = (case e of TrackClick _ _ \<Rightarrow> True | _ \<Rightarrow> False)"

text \<open>
  The three tests the controller makes on the result of the lookup before it redirects:
  no row, a row that is not active, a row whose expiry date has passed.
\<close>

definition unresolvable :: "int \<Rightarrow> link option \<Rightarrow> bool" where
  "unresolvable t r =
     (case r of None \<Rightarrow> True | Some l \<Rightarrow> \<not> isActive l \<or> expired t l)"

subsection \<open>The tracker of the specification\<close>

text \<open>
  Modelled from the spec: the click-count increment, which no source at hand performs
  (the controller changes no row itself). The specification says that a successful
  resolution increments \<^verbatim>\<open>clicks\<close> by 1, as a single atomic operation against
  the store.
\<close>

definition increment_clicks :: "string \<Rightarrow> db \<Rightarrow> db" where
  "increment_clicks lid d =
     d\<lparr>links := map (\<lambda>l. if link_id l = lid then l\<lparr>clicks := clicks l + 1\<rparr> else l) (links d)\<rparr>"

text \<open>
  Modelled from the spec: \<^verbatim>\<open>trackClick\<close> of middleware/analytics.js, which is
  not among the sources and is the only call of the controller in which the click count
  can change. The specification says that a successful resolution increments the count
  and schedules a ClickEvent write with the request metadata, best effort: its failure
  is logged and dropped. The fields derived from the user agent by an external parser
  are left out. \<open>write_fault\<close> is the failure of the ClickEvent write, if any, and
  \<open>t\<close> the time of the write.
\<close>

definition trackClick_spec :: "error option \<Rightarrow> int \<Rightarrow> tracker" where
  "trackClick_spec write_fault t lid req d =
     (let d1 = increment_clicks lid d in
      case write_fault of
        Some e \<Rightarrow> (d1, Some e)
      | None \<Rightarrow>
          (d1\<lparr>clickEvents := clickEvents d1 @
               [\<lparr>linkId = lid, ipAddress = ip req,
                 userAgent = map_of (headers req) ''user-agent'',
                 referer = map_of (headers req) ''referer'',
                 clickedAt = t\<rparr>]\<rparr>,
           None))"

subsection \<open>server.js: handlers and middleware\<close>

text \<open>The health endpoints: \<^verbatim>\<open>res.json({ ok: true, version: '1.0' })\<close>.\<close>

definition healthHandler :: response where
  "healthHandler = Json 200 [(''ok'', JBool True), (''version'', JStr ''1.0'')]"

text \<open>
  The statuses with which \<^verbatim>\<open>res.json\<close> delivers its body. Node sends no body
  with an informational status, and \<^verbatim>\<open>res.send\<close> empties the body for 204, 205
  and 304.
\<close>

definition carries_body :: "nat \<Rightarrow> bool" where
  "carries_body n = (200 \<le> n \<and> n \<noteq> 204 \<and> n \<noteq> 205 \<and> n \<noteq> 304)"

text \<open>
  \<^verbatim>\<open>err.status || 500\<close>: the default for an undefined status and for the falsy 0.
  A defined status is taken to be a number.
\<close>

definition effective_status :: "error \<Rightarrow> nat" where
  "effective_status err = (case status err of None \<Rightarrow> 500 | Some n \<Rightarrow> if n = 0 then 500 else n)"

text \<open>
  The error-handling middleware,
  \<^verbatim>\<open>res.status(err.status || 500).json({success: false, message: ..., ...})\<close>.
  \<^item> A status outside 100..999 is refused (by \<^verbatim>\<open>res.status\<close> or when the head is
    written): the middleware throws, and Express's final handler answers 500 with its
    HTML page, which shows a stack unless the Express environment
    (\<^verbatim>\<open>NODE_ENV\<close>, by default development) is production.
  \<^item> With a status that carries no body the answer is that status with an empty body.
  \<^item> Otherwise the JSON body is delivered. \<^verbatim>\<open>err.message || 'Internal Server Error'\<close>
    takes the default for an undefined and for an empty message. The \<^verbatim>\<open>stack\<close>
    key is spread into the body only when \<^verbatim>\<open>NODE_ENV\<close> is exactly
    \<^verbatim>\<open>'development'\<close>; an undefined stack is dropped by the JSON encoding.
\<close>

definition errorHandler :: "env \<Rightarrow> error \<Rightarrow> response" where
  "errorHandler ev err =
     (let n = effective_status err in
      if n < 100 \<or> 999 < n then ErrorPage 500 (node_env ev \<noteq> Some ''production'')
      else if \<not> carries_body n then Send n []
      else
        Json n
          ([(''success'', JBool False),
            (''message'', JStr (case message err of
                                  None \<Rightarrow> ''Internal Server Error''
                                | Some m \<Rightarrow> if m = [] then ''Internal Server Error'' else m))]
           @ (if node_env ev = Some ''development''
              then (case stack err of None \<Rightarrow> [] | Some s \<Rightarrow> [(''stack'', JStr s)])
              else [])))"

text \<open>The final 404 handler.\<close>

definition routeNotFound :: response where
  "routeNotFound = Json 404 [(''success'', JBool False), (''message'', JStr ''Route not found'')]"

text \<open>
  An Express middleware answers, calls \<^verbatim>\<open>next()\<close> (perhaps after changing the
  request), or calls \<^verbatim>\<open>next(err)\<close>; it may change the store on the way.
\<close>

datatype step = Respond response | Continue request | Fail error

type_synonym middleware = "request \<Rightarrow> db \<Rightarrow> step \<times> db"

text \<open>A route's handler list: each handler runs only if every earlier one called \<^verbatim>\<open>next()\<close>.\<close>

fun run_chain :: "middleware list \<Rightarrow> middleware" where
  "run_chain [] req d = (Continue req, d)"
| "run_chain (m # ms) req d =
     (case m req d of
        (Continue req', d') \<Rightarrow> run_chain ms req' d'
      | (Respond r, d') \<Rightarrow> (Respond r, d')
      | (Fail e, d') \<Rightarrow> (Fail e, d'))"

text \<open>
  The modules that \<^verbatim>\<open>server.js\<close> and \<^verbatim>\<open>routes/analytics.js\<close> require and
  that are not among the sources, taken as parameters: the third-party middleware
  mounted first (\<^verbatim>\<open>cors()\<close>, \<^verbatim>\<open>express.json()\<close>,
  \<^verbatim>\<open>express.urlencoded(...)\<close>, as one step), the routers of
  \<^verbatim>\<open>/api/auth\<close> and \<^verbatim>\<open>/api/links\<close>, and the middleware and
  controllers of the analytics router.
\<close>

record handlers =
  parsers :: middleware
  authRoutes :: middleware
  linkRoutes :: middleware
  handleValidationErrors :: middleware
  authenticate :: middleware
  getAnalyticsSummary :: middleware
  getAnalytics :: middleware

subsection \<open>routes/analytics.js\<close>

text \<open>
  The two routes of the router, both for GET: \<^verbatim>\<open>/summary/:linkId\<close> and
  \<^verbatim>\<open>/:linkId\<close>. The express-validator chains listed first only record their
  findings on the request and always call \<^verbatim>\<open>next()\<close>; what they found is read
  by \<^verbatim>\<open>handleValidationErrors\<close>.
\<close>

datatype analytics_route = Summary | ByLink

definition validators :: middleware where
  "validators req d = (Continue req, d)"

definition analyticsRoutes :: "handlers \<Rightarrow> analytics_route \<Rightarrow> middleware" where
  "analyticsRoutes h r =
     (case r of
        Summary \<Rightarrow>
          run_chain [validators, handleValidationErrors h, authenticate h, getAnalyticsSummary h]
      | ByLink \<Rightarrow>
          run_chain [validators, handleValidationErrors h, authenticate h, getAnalytics h])"

subsection \<open>server.js: the route table\<close>

text \<open>
  The route Express selects for a request, in the order of \<^verbatim>\<open>server.js\<close>. A
  path under \<^verbatim>\<open>/api/analytics\<close> that matches neither route of the router is
  \<open>ApiAnalytics None\<close>. The selection itself (methods, path patterns) is Express's.
\<close>

datatype route =
    GetHealth
  | GetHealthz
  | ApiAuth
  | ApiLinks
  | ApiAnalytics "analytics_route option"
  | GetShortCode
  | Unrouted

text \<open>
  What follows a router mounted under \<^verbatim>\<open>/api\<close>: an error goes to the
  error-handling middleware, and a request that fell through matches no later route
  (\<^verbatim>\<open>/:shortCode\<close> is a single path segment) and reaches the 404 handler.
\<close>

definition finish :: "env \<Rightarrow> step \<times> db \<Rightarrow> response \<times> db \<times> effect list" where
  "finish ev r =
     (case r of
        (Respond x, d) \<Rightarrow> (x, d, [])
      | (Fail e, d) \<Rightarrow> (errorHandler ev e, d, [ConsoleErrorStack (stack e)])
      | (Continue _, d) \<Rightarrow> (routeNotFound, d, []))"

text \<open>
  The application. \<^verbatim>\<open>routes/redirect.js\<close> is not among the sources; the handler
  it exports for \<^verbatim>\<open>/:shortCode\<close> is taken to be the controller
  \<^verbatim>\<open>redirect\<close>.
\<close>

definition app ::
  "handlers \<Rightarrow> tracker \<Rightarrow> env \<Rightarrow> db \<Rightarrow> route \<Rightarrow> request \<Rightarrow> response \<times> db \<times> effect list" where
  "app h trackClick ev d rt req =
     (case parsers h req d of
        (Respond x, d1) \<Rightarrow> (x, d1, [])
      | (Fail e, d1) \<Rightarrow> (errorHandler ev e, d1, [ConsoleErrorStack (stack e)])
      | (Continue req1, d1) \<Rightarrow>
          (case rt of
             GetHealth \<Rightarrow> (healthHandler, d1, [])
           | GetHealthz \<Rightarrow> (healthHandler, d1, [])
           | ApiAuth \<Rightarrow> finish ev (authRoutes h req1 d1)
           | ApiLinks \<Rightarrow> finish ev (linkRoutes h req1 d1)
           | ApiAnalytics None \<Rightarrow> (routeNotFound, d1, [])
           | ApiAnalytics (Some r) \<Rightarrow> finish ev (analyticsRoutes h r req1 d1)
           | GetShortCode \<Rightarrow>
               (case redirect trackClick ev d1 req1 of
                  (Responded x, d2, es) \<Rightarrow> (x, d2, es)
                | (NextErr e, d2, es) \<Rightarrow>
                    (errorHandler ev e, d2, es @ [ConsoleErrorStack (stack e)]))
           | Unrouted \<Rightarrow> (routeNotFound, d1, [])))"

subsection \<open>Observations on responses\<close>

definition status_of :: "response \<Rightarrow> nat" where
  "status_of r =
     (case r of Send n _ \<Rightarrow> n | Json n _ \<Rightarrow> n | Redirect n _ \<Rightarrow> n | ErrorPage n _ \<Rightarrow> n)"

text \<open>A body of the shape \<^verbatim>\<open>{success: false, message}\<close>.\<close>

definition error_shape :: "response \<Rightarrow> bool" where
  "error_shape r =
     (case r of
        Json _ body \<Rightarrow>
          map_of body ''success'' = Some (JBool False)
          \<and> (case map_of body ''message'' of Some (JStr _) \<Rightarrow> True | _ \<Rightarrow> False)
      | _ \<Rightarrow> False)"

text \<open>Stack detail in a response: a \<^verbatim>\<open>stack\<close> key of a JSON body, or a stack on the error page.\<close>

definition has_stack :: "response \<Rightarrow> bool" where
  "has_stack r =
     (case r of
        Json _ body \<Rightarrow> map_of body ''stack'' \<noteq> None
      | ErrorPage _ s \<Rightarrow> s
      | _ \<Rightarrow> False)"

subsection \<open>Concrete inputs\<close>

text \<open>A store with one live link, one deactivated link and one link with an expiry date.\<close>

definition docs_link :: link where
  "docs_link = \<lparr>link_id = ''l1'', shortCode = ''docs01'', originalUrl = ''https://example.com'',
     title = None, description = None, clicks = 5, isActive = True, expiresAt = None\<rparr>"

definition gone_link :: link where
  "gone_link = \<lparr>link_id = ''l2'', shortCode = ''gone01'', originalUrl = ''https://example.org'',
     title = None, description = None, clicks = 2, isActive = False, expiresAt = None\<rparr>"

definition timed_link :: link where
  "timed_link = \<lparr>link_id = ''l3'', shortCode = ''time01'', originalUrl = ''https://example.net'',
     title = None, description = None, clicks = 0, isActive = True, expiresAt = Some 1000\<rparr>"

definition sample_db :: db where
  "sample_db = \<lparr>links = [docs_link, gone_link, timed_link], clickEvents = []\<rparr>"

definition sample_env :: "int \<Rightarrow> env" where
  "sample_env t = \<lparr>now = t, node_env = Some ''production'', lookup_fault = None\<rparr>"

definition get_req :: "string \<Rightarrow> request" where
  "get_req code = \<lparr>url = CHR ''/'' # code, params_shortCode = code, headers = [], ip = None\<rparr>"

definition store_down :: error where
  "store_down = \<lparr>status = None, message = Some ''Database unreachable'', stack = Some ''trace''\<rparr>"

text \<open>A development environment in which the store lookup rejects.\<close>

definition down_dev_env :: env where
  "down_dev_env = \<lparr>now = 0, node_env = Some ''development'', lookup_fault = Some store_down\<rparr>"

text \<open>A tracker whose promise rejects without touching the store, and one that resolves.\<close>

definition failing_tracker :: tracker where
  "failing_tracker lid req d = (d, Some store_down)"

definition idle_tracker :: tracker where
  "idle_tracker lid req d = (d, None)"

text \<open>
  A tracker that leaves a mark in the store: it appends a row to the analytics table.
\<close>

definition recording_tracker :: tracker where
  "recording_tracker lid req d =
     (d\<lparr>clickEvents := clickEvents d @
          [\<lparr>linkId = lid, ipAddress = ip req, userAgent = None, referer = None, clickedAt = 0\<rparr>]\<rparr>,
      None)"

text \<open>Handlers that all call \<^verbatim>\<open>next()\<close>, for the modules taken as parameters.\<close>

definition pass :: middleware where
  "pass req d = (Continue req, d)"

definition sample_handlers :: handlers where
  "sample_handlers = \<lparr>parsers = pass, authRoutes = pass, linkRoutes = pass,
     handleValidationErrors = pass, authenticate = pass,
     getAnalyticsSummary = pass, getAnalytics = pass\<rparr>"

section \<open>Properties\<close>

subsection \<open>The three paths of the controller\<close>

lemma redirect_fault:
  "lookup_fault ev = Some e \<Longrightarrow>
   redirect tc ev d req = (NextErr e, d, [FindUnique (params_shortCode req)])"
  by (simp add: redirect_def findUnique_def Let_def)

lemma redirect_dead:
  "lookup_fault ev = None \<Longrightarrow>
   unresolvable (now ev) (find (\<lambda>l. shortCode l = params_shortCode req) (links d)) \<Longrightarrow>
   redirect tc ev d req = (Responded (Send 404 ''Not Found''), d, [FindUnique (params_shortCode req)])"
  by (auto simp: redirect_def findUnique_def unresolvable_def notFound_def Let_def split: option.splits)

lemma redirect_live:
  "lookup_fault ev = None \<Longrightarrow>
   find (\<lambda>l. shortCode l = params_shortCode req) (links d) = Some l \<Longrightarrow>
   isActive l \<Longrightarrow> \<not> expired (now ev) l \<Longrightarrow>
   redirect tc ev d req =
     (Responded (Redirect 302 (originalUrl l)), fst (tc (link_id l) req d),
      [FindUnique (params_shortCode req), TrackClick (link_id l) req]
        @ (case snd (tc (link_id l) req d) of None \<Rightarrow> [] | Some e \<Rightarrow> [ConsoleError e]))"
  by (simp add: redirect_def findUnique_def Let_def split: prod.splits)

lemma live_or_dead:
  "unresolvable t r \<or> (\<exists>l. r = Some l \<and> isActive l \<and> \<not> expired t l)"
  by (cases r) (auto simp: unresolvable_def)

lemma unresolvable_iff:
  "unresolvable t r =
     (r = None \<or> (\<exists>l. r = Some l \<and> \<not> isActive l)
      \<or> (\<exists>l e. r = Some l \<and> expiresAt l = Some e \<and> e < t))"
  by (cases r) (auto simp: unresolvable_def expired_def split: option.splits)

lemma sample_lookups:
  "find (\<lambda>l. shortCode l = ''docs01'') (links sample_db) = Some docs_link"
  "find (\<lambda>l. shortCode l = ''gone01'') (links sample_db) = Some gone_link"
  "find (\<lambda>l. shortCode l = ''time01'') (links sample_db) = Some timed_link"
  "find (\<lambda>l. shortCode l = ''nocode'') (links sample_db) = None"
  "find (\<lambda>l. shortCode l = ''x!'') (links sample_db) = None"
  by (simp_all add: sample_db_def docs_link_def gone_link_def timed_link_def)

subsection \<open>Resolution\<close>

text \<open>
  C1. Let the store lookup return (the Prisma call does not reject). Then for every
  short code the controller answers 404 Not Found if and only if no link with that code
  exists, or the link is not active, or its \<^verbatim>\<open>expiresAt\<close> is set and
  earlier than the clock; and when none of the three holds it answers with a redirect
  to the stored URL.
\<close>

theorem resolve_not_found_iff:
  assumes "lookup_fault ev = None"
    and "find (\<lambda>l. shortCode l = params_shortCode req) (links d) = r"
  shows "((reply (redirect tc ev d req) = Responded (Send 404 ''Not Found'')) =
            (r = None \<or> (\<exists>l. r = Some l \<and> \<not> isActive l)
             \<or> (\<exists>l e. r = Some l \<and> expiresAt l = Some e \<and> e < now ev)))
       \<and> (\<not> (r = None \<or> (\<exists>l. r = Some l \<and> \<not> isActive l)
             \<or> (\<exists>l e. r = Some l \<and> expiresAt l = Some e \<and> e < now ev))
          \<longrightarrow> (\<exists>l. r = Some l
                  \<and> reply (redirect tc ev d req) = Responded (Redirect 302 (originalUrl l))))"
proof (cases "unresolvable (now ev) r")
  case True
  with assms have "redirect tc ev d req =
      (Responded (Send 404 ''Not Found''), d, [FindUnique (params_shortCode req)])"
    by (simp add: redirect_dead)
  with True show ?thesis
    by (simp add: reply_def unresolvable_iff)
next
  case False
  with live_or_dead [of "now ev" r] obtain l
    where l: "r = Some l" "isActive l" "\<not> expired (now ev) l"
    by blast
  with assms have "reply (redirect tc ev d req) = Responded (Redirect 302 (originalUrl l))"
    by (simp add: redirect_live reply_def)
  with False l show ?thesis
    by (simp add: unresolvable_iff)
qed

theorem resolve_not_found_iff_witness:
  "lookup_fault (sample_env 2000) = None
   \<and> find (\<lambda>l. shortCode l = params_shortCode (get_req ''time01'')) (links sample_db) = Some timed_link
   \<and> reply (redirect idle_tracker (sample_env 2000) sample_db (get_req ''time01''))
       = Responded (Send 404 ''Not Found'')
   \<and> reply (redirect idle_tracker (sample_env 2000) sample_db (get_req ''docs01''))
       = Responded (Redirect 302 ''https://example.com'')"
proof -
  have f: "lookup_fault (sample_env 2000) = None"
    by (simp add: sample_env_def)
  have t: "find (\<lambda>l. shortCode l = params_shortCode (get_req ''time01'')) (links sample_db)
            = Some timed_link"
    by (simp add: get_req_def sample_lookups)
  have c: "find (\<lambda>l. shortCode l = params_shortCode (get_req ''docs01'')) (links sample_db)
            = Some docs_link"
    by (simp add: get_req_def sample_lookups)
  from resolve_not_found_iff [OF f t, of idle_tracker]
  have "reply (redirect idle_tracker (sample_env 2000) sample_db (get_req ''time01''))
          = Responded (Send 404 ''Not Found'')"
    by (simp add: timed_link_def sample_env_def)
  moreover from resolve_not_found_iff [OF f c, of idle_tracker]
  have "reply (redirect idle_tracker (sample_env 2000) sample_db (get_req ''docs01''))
          = Responded (Redirect 302 ''https://example.com'')"
    by (simp add: docs_link_def sample_env_def)
  ultimately show ?thesis using f t by simp
qed

text \<open>
  C9. The expiry test is strict. For an active link with an expiry date, the controller
  answers 404 exactly when the date is earlier than the clock; a date equal to the clock
  or later is not expired and the controller redirects.
\<close>

theorem expiry_comparison_strict:
  assumes "lookup_fault ev = None"
    and "find (\<lambda>l. shortCode l = params_shortCode req) (links d) = Some l"
    and "isActive l"
    and "expiresAt l = Some e"
  shows "((reply (redirect tc ev d req) = Responded (Send 404 ''Not Found'')) = (e < now ev))
       \<and> (now ev \<le> e
          \<longrightarrow> reply (redirect tc ev d req) = Responded (Redirect 302 (originalUrl l)))"
proof (cases "e < now ev")
  case True
  with assms have "unresolvable (now ev) (find (\<lambda>l. shortCode l = params_shortCode req) (links d))"
    by (simp add: unresolvable_def expired_def)
  with assms(1) have "redirect tc ev d req =
      (Responded (Send 404 ''Not Found''), d, [FindUnique (params_shortCode req)])"
    by (rule redirect_dead)
  with True show ?thesis
    by (simp add: reply_def)
next
  case False
  with assms have "\<not> expired (now ev) l"
    by (simp add: expired_def)
  with assms have "reply (redirect tc ev d req) = Responded (Redirect 302 (originalUrl l))"
    by (simp add: redirect_live reply_def)
  with False show ?thesis
    by simp
qed

theorem expiry_comparison_strict_witness:
  "lookup_fault (sample_env 1000) = None
   \<and> find (\<lambda>l. shortCode l = params_shortCode (get_req ''time01'')) (links sample_db) = Some timed_link
   \<and> isActive timed_link \<and> expiresAt timed_link = Some (now (sample_env 1000))
   \<and> reply (redirect idle_tracker (sample_env 1000) sample_db (get_req ''time01''))
       = Responded (Redirect 302 ''https://example.net'')"
proof -
  have f: "lookup_fault (sample_env 1000) = None"
    by (simp add: sample_env_def)
  have t: "find (\<lambda>l. shortCode l = params_shortCode (get_req ''time01'')) (links sample_db)
            = Some timed_link"
    by (simp add: get_req_def sample_lookups)
  have a: "isActive timed_link"
    by (simp add: timed_link_def)
  have x: "expiresAt timed_link = Some 1000"
    by (simp add: timed_link_def)
  from expiry_comparison_strict [OF f t a x, of idle_tracker]
  have "reply (redirect idle_tracker (sample_env 1000) sample_db (get_req ''time01''))
          = Responded (Redirect 302 ''https://example.net'')"
    by (simp add: timed_link_def sample_env_def)
  with f t a x show ?thesis
    by (simp add: sample_env_def)
qed

text \<open>
  C6. A missing link, a link that is not active and a link whose expiry date has passed
  get the same answer from the controller: status 404 with the body
  \<^verbatim>\<open>Not Found\<close>. Nothing else differs either: the store is left as it was and
  the only call made is the lookup.
\<close>

theorem failures_indistinguishable:
  assumes "lookup_fault ev1 = None" and "lookup_fault ev2 = None" and "lookup_fault ev3 = None"
    and "find (\<lambda>l. shortCode l = params_shortCode req1) (links d1) = None"
    and "find (\<lambda>l. shortCode l = params_shortCode req2) (links d2) = Some l2"
    and "\<not> isActive l2"
    and "find (\<lambda>l. shortCode l = params_shortCode req3) (links d3) = Some l3"
    and "expiresAt l3 = Some e" and "e < now ev3"
  shows "reply (redirect tc1 ev1 d1 req1) = Responded (Send 404 ''Not Found'')
       \<and> reply (redirect tc2 ev2 d2 req2) = reply (redirect tc1 ev1 d1 req1)
       \<and> reply (redirect tc3 ev3 d3 req3) = reply (redirect tc1 ev1 d1 req1)
       \<and> store_after (redirect tc1 ev1 d1 req1) = d1
       \<and> store_after (redirect tc2 ev2 d2 req2) = d2
       \<and> store_after (redirect tc3 ev3 d3 req3) = d3
       \<and> trace (redirect tc1 ev1 d1 req1) = [FindUnique (params_shortCode req1)]
       \<and> trace (redirect tc2 ev2 d2 req2) = [FindUnique (params_shortCode req2)]
       \<and> trace (redirect tc3 ev3 d3 req3) = [FindUnique (params_shortCode req3)]"
proof -
  have u1: "unresolvable (now ev1) (find (\<lambda>l. shortCode l = params_shortCode req1) (links d1))"
    using assms(4) by (simp add: unresolvable_def)
  have u2: "unresolvable (now ev2) (find (\<lambda>l. shortCode l = params_shortCode req2) (links d2))"
    using assms(5,6) by (simp add: unresolvable_def)
  have u3: "unresolvable (now ev3) (find (\<lambda>l. shortCode l = params_shortCode req3) (links d3))"
    using assms(7,8,9) by (simp add: unresolvable_def expired_def)
  show ?thesis
    by (simp add: redirect_dead [OF assms(1) u1] redirect_dead [OF assms(2) u2]
        redirect_dead [OF assms(3) u3] reply_def store_after_def trace_def)
qed

theorem failures_indistinguishable_witness:
  "reply (redirect idle_tracker (sample_env 2000) sample_db (get_req ''nocode''))
     = Responded (Send 404 ''Not Found'')
   \<and> reply (redirect idle_tracker (sample_env 2000) sample_db (get_req ''gone01''))
     = reply (redirect idle_tracker (sample_env 2000) sample_db (get_req ''nocode''))
   \<and> reply (redirect idle_tracker (sample_env 2000) sample_db (get_req ''time01''))
     = reply (redirect idle_tracker (sample_env 2000) sample_db (get_req ''nocode''))"
proof -
  have f: "lookup_fault (sample_env 2000) = None"
    by (simp add: sample_env_def)
  have m: "find (\<lambda>l. shortCode l = params_shortCode (get_req ''nocode'')) (links sample_db) = None"
    by (simp add: get_req_def sample_lookups)
  have g: "find (\<lambda>l. shortCode l = params_shortCode (get_req ''gone01'')) (links sample_db)
            = Some gone_link"
    by (simp add: get_req_def sample_lookups)
  have i: "\<not> isActive gone_link"
    by (simp add: gone_link_def)
  have t: "find (\<lambda>l. shortCode l = params_shortCode (get_req ''time01'')) (links sample_db)
            = Some timed_link"
    by (simp add: get_req_def sample_lookups)
  have x: "expiresAt timed_link = Some 1000"
    by (simp add: timed_link_def)
  have p: "1000 < now (sample_env 2000)"
    by (simp add: sample_env_def)
  from failures_indistinguishable [OF f f f m g i t x p,
      of idle_tracker idle_tracker idle_tracker]
  show ?thesis by simp
qed

subsection \<open>The analytics write\<close>

lemma redirect_reply_cases:
  "(\<exists>e. lookup_fault ev = Some e \<and> redirect tc ev d req = (NextErr e, d, [FindUnique (params_shortCode req)]))
   \<or> (lookup_fault ev = None
       \<and> unresolvable (now ev) (find (\<lambda>l. shortCode l = params_shortCode req) (links d))
       \<and> redirect tc ev d req = (Responded (Send 404 ''Not Found''), d, [FindUnique (params_shortCode req)]))
   \<or> (\<exists>l. lookup_fault ev = None
       \<and> find (\<lambda>l. shortCode l = params_shortCode req) (links d) = Some l
       \<and> isActive l \<and> \<not> expired (now ev) l
       \<and> redirect tc ev d req =
           (Responded (Redirect 302 (originalUrl l)), fst (tc (link_id l) req d),
            [FindUnique (params_shortCode req), TrackClick (link_id l) req]
              @ (case snd (tc (link_id l) req d) of None \<Rightarrow> [] | Some e \<Rightarrow> [ConsoleError e])))"
proof (cases "lookup_fault ev")
  case (Some e)
  then show ?thesis by (simp add: redirect_fault)
next
  case None
  show ?thesis
  proof (cases "unresolvable (now ev) (find (\<lambda>l. shortCode l = params_shortCode req) (links d))")
    case True
    with None show ?thesis by (simp add: redirect_dead)
  next
    case False
    with live_or_dead obtain l
      where "find (\<lambda>l. shortCode l = params_shortCode req) (links d) = Some l"
        and "isActive l" and "\<not> expired (now ev) l"
      by blast
    with None show ?thesis by (simp add: redirect_live)
  qed
qed

subsection \<open>Input handling\<close>



subsection \<open>The click count\<close>

lemma find_map_same_test:
  assumes "\<And>x. P (f x) = P x"
  shows "find P (map f xs) = map_option f (find P xs)"
  using assms by (induction xs) simp_all

lemma find_after_increment:
  "find (\<lambda>l. shortCode l = code) (links (increment_clicks lid d))
     = map_option (\<lambda>l. if link_id l = lid then l\<lparr>clicks := clicks l + 1\<rparr> else l)
         (find (\<lambda>l. shortCode l = code) (links d))"
  by (simp add: increment_clicks_def find_map_same_test)

lemma links_trackClick_spec:
  "links (fst (trackClick_spec wfault t lid req d)) = links (increment_clicks lid d)"
  by (simp add: trackClick_spec_def Let_def split: option.splits)

text \<open>
  C2. With the tracker of the specification, a resolution that succeeds (the link
  exists, is active and is not expired) answers with a 302 redirect to the stored
  \<^verbatim>\<open>originalUrl\<close>, and afterwards the link found under the code is the same
  link with \<^verbatim>\<open>clicks\<close> greater by exactly 1, whether or not the ClickEvent
  write failed. The redirect target holds for every tracker.
\<close>

theorem resolve_success_increments_clicks:
  assumes "lookup_fault ev = None"
    and "find (\<lambda>l. shortCode l = params_shortCode req) (links d) = Some l"
    and "isActive l"
    and "\<not> expired (now ev) l"
  shows "reply (redirect tc ev d req) = Responded (Redirect 302 (originalUrl l))
       \<and> reply (redirect (trackClick_spec wfault t) ev d req) = Responded (Redirect 302 (originalUrl l))
       \<and> find (\<lambda>l. shortCode l = params_shortCode req)
               (links (store_after (redirect (trackClick_spec wfault t) ev d req)))
           = Some (l\<lparr>clicks := clicks l + 1\<rparr>)"
proof -
  have "store_after (redirect (trackClick_spec wfault t) ev d req)
          = fst (trackClick_spec wfault t (link_id l) req d)"
    using assms by (simp add: redirect_live store_after_def)
  then have "find (\<lambda>l. shortCode l = params_shortCode req)
               (links (store_after (redirect (trackClick_spec wfault t) ev d req)))
           = Some (l\<lparr>clicks := clicks l + 1\<rparr>)"
    using assms(2) by (simp add: links_trackClick_spec find_after_increment)
  with assms show ?thesis
    by (simp add: redirect_live reply_def)
qed

theorem resolve_success_increments_clicks_witness:
  "lookup_fault (sample_env 0) = None
   \<and> find (\<lambda>l. shortCode l = params_shortCode (get_req ''docs01'')) (links sample_db) = Some docs_link
   \<and> isActive docs_link \<and> \<not> expired (now (sample_env 0)) docs_link
   \<and> reply (redirect (trackClick_spec (Some store_down) 7) (sample_env 0) sample_db (get_req ''docs01''))
       = Responded (Redirect 302 ''https://example.com'')
   \<and> map_option clicks (find (\<lambda>l. shortCode l = ''docs01'')
        (links (store_after (redirect (trackClick_spec (Some store_down) 7) (sample_env 0) sample_db
           (get_req ''docs01''))))) = Some 6"
proof -
  have f: "lookup_fault (sample_env 0) = None"
    by (simp add: sample_env_def)
  have c: "find (\<lambda>l. shortCode l = params_shortCode (get_req ''docs01'')) (links sample_db)
            = Some docs_link"
    by (simp add: get_req_def sample_lookups)
  have a: "isActive docs_link"
    by (simp add: docs_link_def)
  have x: "\<not> expired (now (sample_env 0)) docs_link"
    by (simp add: docs_link_def expired_def)
  have p: "params_shortCode (get_req ''docs01'') = ''docs01''"
    by (simp add: get_req_def)
  from resolve_success_increments_clicks [OF f c a x, of idle_tracker "Some store_down" 7]
  show ?thesis using f c a x
    by (simp add: p docs_link_def)
qed

subsection \<open>The analytics write\<close>

lemma handler_fault:
  "lookup_fault ev = Some e \<Longrightarrow>
   redirect_handler ev d req = (NextErr e, [FindUnique (params_shortCode req)], None)"
  by (simp add: redirect_handler_def findUnique_def Let_def)

lemma handler_dead:
  "lookup_fault ev = None \<Longrightarrow>
   unresolvable (now ev) (find (\<lambda>l. shortCode l = params_shortCode req) (links d)) \<Longrightarrow>
   redirect_handler ev d req =
     (Responded (Send 404 ''Not Found''), [FindUnique (params_shortCode req)], None)"
  by (auto simp: redirect_handler_def findUnique_def unresolvable_def notFound_def Let_def
           split: option.splits)

lemma handler_live:
  "lookup_fault ev = None \<Longrightarrow>
   find (\<lambda>l. shortCode l = params_shortCode req) (links d) = Some l \<Longrightarrow>
   isActive l \<Longrightarrow> \<not> expired (now ev) l \<Longrightarrow>
   redirect_handler ev d req =
     (Responded (Redirect 302 (originalUrl l)),
      [FindUnique (params_shortCode req), TrackClick (link_id l) req],
      Some (Track (link_id l) req))"
  by (simp add: redirect_handler_def findUnique_def Let_def)

lemma redirect_factors:
  "redirect tc ev d req =
     (case redirect_handler ev d req of
        (out, es, p) \<Rightarrow> (case settle tc p d of (d', es') \<Rightarrow> (out, d', es @ es')))"
  using redirect_reply_cases [of ev tc d req]
  by (auto simp: handler_fault handler_dead handler_live settle_def split: prod.splits)

text \<open>
  C7. When the controller redirects, it calls \<^verbatim>\<open>trackClick\<close> exactly once, with
  the id of the resolved link and the request: the handler leaves that one promise
  pending, the store afterwards is the store the tracker made of it in this one call,
  and the trace holds the call once (followed by the logged rejection, if any). When the
  controller answers 404, or passes on the error of the lookup, it does not call
  \<^verbatim>\<open>trackClick\<close>: no promise is pending and the store is untouched.
\<close>

theorem track_click_once_per_redirect:
  "(\<forall>u. reply (redirect tc ev d req) = Responded (Redirect 302 u)
        \<longrightarrow> (\<exists>l. find (\<lambda>l. shortCode l = params_shortCode req) (links d) = Some l
                \<and> snd (snd (redirect_handler ev d req)) = Some (Track (link_id l) req)
                \<and> store_after (redirect tc ev d req) = fst (tc (link_id l) req d)
                \<and> trace (redirect tc ev d req) =
                    [FindUnique (params_shortCode req), TrackClick (link_id l) req]
                      @ (case snd (tc (link_id l) req d) of None \<Rightarrow> [] | Some e \<Rightarrow> [ConsoleError e])
                \<and> filter is_track (trace (redirect tc ev d req)) = [TrackClick (link_id l) req]))
   \<and> (reply (redirect tc ev d req) = Responded (Send 404 ''Not Found'')
        \<longrightarrow> snd (snd (redirect_handler ev d req)) = None
          \<and> store_after (redirect tc ev d req) = d
          \<and> filter is_track (trace (redirect tc ev d req)) = [])
   \<and> (\<forall>e. reply (redirect tc ev d req) = NextErr e
        \<longrightarrow> snd (snd (redirect_handler ev d req)) = None
          \<and> store_after (redirect tc ev d req) = d
          \<and> filter is_track (trace (redirect tc ev d req)) = [])"
  using redirect_reply_cases [of ev tc d req]
  by (auto simp: reply_def trace_def store_after_def is_track_def
        handler_fault handler_dead handler_live split: option.splits)

theorem track_click_once_per_redirect_witness:
  "reply (redirect recording_tracker (sample_env 0) sample_db (get_req ''docs01''))
     = Responded (Redirect 302 ''https://example.com'')
   \<and> clickEvents (store_after (redirect recording_tracker (sample_env 0) sample_db (get_req ''docs01'')))
     = [\<lparr>linkId = ''l1'', ipAddress = None, userAgent = None, referer = None, clickedAt = 0\<rparr>]
   \<and> length (filter is_track
        (trace (redirect recording_tracker (sample_env 0) sample_db (get_req ''docs01'')))) = 1
   \<and> reply (redirect recording_tracker (sample_env 0) sample_db (get_req ''gone01''))
     = Responded (Send 404 ''Not Found'')
   \<and> store_after (redirect recording_tracker (sample_env 0) sample_db (get_req ''gone01''))
     = sample_db
   \<and> filter is_track
        (trace (redirect recording_tracker (sample_env 0) sample_db (get_req ''gone01''))) = []"
proof -
  have f: "lookup_fault (sample_env 0) = None"
    by (simp add: sample_env_def)
  have c: "find (\<lambda>l. shortCode l = params_shortCode (get_req ''docs01'')) (links sample_db)
            = Some docs_link"
    by (simp add: get_req_def sample_lookups)
  have g: "find (\<lambda>l. shortCode l = params_shortCode (get_req ''gone01'')) (links sample_db)
            = Some gone_link"
    by (simp add: get_req_def sample_lookups)
  have r1: "reply (redirect recording_tracker (sample_env 0) sample_db (get_req ''docs01''))
     = Responded (Redirect 302 ''https://example.com'')"
    using redirect_live [OF f c, of recording_tracker]
    by (simp add: docs_link_def expired_def reply_def)
  have r2: "reply (redirect recording_tracker (sample_env 0) sample_db (get_req ''gone01''))
     = Responded (Send 404 ''Not Found'')"
    using redirect_dead [OF f, of "get_req ''gone01''" sample_db recording_tracker] g
    by (simp add: gone_link_def unresolvable_def reply_def)
  from track_click_once_per_redirect
    [of recording_tracker "sample_env 0" sample_db "get_req ''docs01''"] r1 c
  have "store_after (redirect recording_tracker (sample_env 0) sample_db (get_req ''docs01''))
          = fst (recording_tracker (link_id docs_link) (get_req ''docs01'') sample_db)"
    and "filter is_track
          (trace (redirect recording_tracker (sample_env 0) sample_db (get_req ''docs01'')))
          = [TrackClick (link_id docs_link) (get_req ''docs01'')]"
    by auto
  then have "clickEvents (store_after (redirect recording_tracker (sample_env 0) sample_db (get_req ''docs01'')))
     = [\<lparr>linkId = ''l1'', ipAddress = None, userAgent = None, referer = None, clickedAt = 0\<rparr>]"
    and "length (filter is_track
        (trace (redirect recording_tracker (sample_env 0) sample_db (get_req ''docs01'')))) = 1"
    by (simp_all add: recording_tracker_def docs_link_def sample_db_def get_req_def)
  moreover
  from track_click_once_per_redirect
    [of recording_tracker "sample_env 0" sample_db "get_req ''gone01''"] r2
  have "store_after (redirect recording_tracker (sample_env 0) sample_db (get_req ''gone01''))
          = sample_db"
    and "filter is_track
        (trace (redirect recording_tracker (sample_env 0) sample_db (get_req ''gone01''))) = []"
    by simp_all
  ultimately show ?thesis using r1 r2 by simp
qed

text \<open>
  C5. The controller answers without waiting for the analytics write. The run of the
  handler, in which the answer is sent, is a function of the clock, the store and the
  request alone; when it ends on a redirect, the promise of \<^verbatim>\<open>trackClick\<close> is
  still pending and the store is as it was. The whole of the controller is that run
  followed by the settling of the promise, so the answer is the handler's, the same for
  any two trackers, and so is the HTTP response of the application. When the promise
  rejects, the answer is still the redirect and the rejection reason goes to
  \<^verbatim>\<open>console.error\<close>.
\<close>

theorem redirect_independent_of_tracker:
  "redirect tc ev d req =
     (case redirect_handler ev d req of
        (out, es, p) \<Rightarrow> (case settle tc p d of (d', es') \<Rightarrow> (out, d', es @ es')))
   \<and> reply (redirect tc ev d req) = fst (redirect_handler ev d req)
   \<and> reply (redirect tc ev d req) = reply (redirect tc' ev d req)
   \<and> fst (app h tc ev d rt req) = fst (app h tc' ev d rt req)
   \<and> (lookup_fault ev = None
        \<and> find (\<lambda>l. shortCode l = params_shortCode req) (links d) = Some l
        \<and> isActive l \<and> \<not> expired (now ev) l
      \<longrightarrow> redirect_handler ev d req =
            (Responded (Redirect 302 (originalUrl l)),
             [FindUnique (params_shortCode req), TrackClick (link_id l) req],
             Some (Track (link_id l) req)))
   \<and> (lookup_fault ev = None
        \<and> find (\<lambda>l. shortCode l = params_shortCode req) (links d) = Some l
        \<and> isActive l \<and> \<not> expired (now ev) l
        \<and> snd (tc (link_id l) req d) = Some e
      \<longrightarrow> reply (redirect tc ev d req) = Responded (Redirect 302 (originalUrl l))
          \<and> trace (redirect tc ev d req)
              = [FindUnique (params_shortCode req), TrackClick (link_id l) req, ConsoleError e])"
proof -
  have h: "reply (redirect x ev y q) = fst (redirect_handler ev y q)" for x y q
    by (simp add: redirect_factors [of x ev y q] reply_def split: prod.splits)
  have r: "reply (redirect x ev y q) = reply (redirect x' ev y q)" for x x' y q
    by (simp add: h)
  have a: "fst (app h tc ev d rt req) = fst (app h tc' ev d rt req)"
  proof (cases "parsers h req d")
    case (Pair s d1)
    show ?thesis
    proof (cases s)
      case (Continue req1)
      show ?thesis
      proof (cases rt)
        case GetShortCode
        obtain o1 x1 es1 where t1: "redirect tc ev d1 req1 = (o1, x1, es1)"
          by (cases "redirect tc ev d1 req1") auto
        obtain o2 x2 es2 where t2: "redirect tc' ev d1 req1 = (o2, x2, es2)"
          by (cases "redirect tc' ev d1 req1") auto
        from r [of tc d1 req1 tc'] t1 t2 have "o1 = o2"
          by (simp add: reply_def)
        with Pair Continue GetShortCode t1 t2 show ?thesis
          by (simp add: app_def split: outcome.splits)
      qed (simp_all add: app_def Pair Continue)
    qed (simp_all add: app_def Pair)
  qed
  have p: "lookup_fault ev = None
        \<and> find (\<lambda>l. shortCode l = params_shortCode req) (links d) = Some l
        \<and> isActive l \<and> \<not> expired (now ev) l
      \<longrightarrow> redirect_handler ev d req =
            (Responded (Redirect 302 (originalUrl l)),
             [FindUnique (params_shortCode req), TrackClick (link_id l) req],
             Some (Track (link_id l) req))"
    by (simp add: handler_live)
  have s: "lookup_fault ev = None
        \<and> find (\<lambda>l. shortCode l = params_shortCode req) (links d) = Some l
        \<and> isActive l \<and> \<not> expired (now ev) l
        \<and> snd (tc (link_id l) req d) = Some e
      \<longrightarrow> reply (redirect tc ev d req) = Responded (Redirect 302 (originalUrl l))
          \<and> trace (redirect tc ev d req)
              = [FindUnique (params_shortCode req), TrackClick (link_id l) req, ConsoleError e]"
    by (simp add: redirect_live reply_def trace_def)
  from redirect_factors [of tc ev d req] h [of tc d req] r [of tc d req tc'] a p s
  show ?thesis
    by (intro conjI)
qed

theorem redirect_independent_of_tracker_witness:
  "redirect_handler (sample_env 0) sample_db (get_req ''docs01'')
     = (Responded (Redirect 302 ''https://example.com''),
        [FindUnique ''docs01'', TrackClick ''l1'' (get_req ''docs01'')],
        Some (Track ''l1'' (get_req ''docs01'')))
   \<and> reply (redirect failing_tracker (sample_env 0) sample_db (get_req ''docs01''))
     = Responded (Redirect 302 ''https://example.com'')
   \<and> reply (redirect idle_tracker (sample_env 0) sample_db (get_req ''docs01''))
     = Responded (Redirect 302 ''https://example.com'')
   \<and> trace (redirect failing_tracker (sample_env 0) sample_db (get_req ''docs01''))
     = [FindUnique ''docs01'', TrackClick ''l1'' (get_req ''docs01''), ConsoleError store_down]"
proof -
  have f: "lookup_fault (sample_env 0) = None"
    by (simp add: sample_env_def)
  have c: "find (\<lambda>l. shortCode l = params_shortCode (get_req ''docs01'')) (links sample_db)
            = Some docs_link"
    by (simp add: get_req_def sample_lookups)
  have a: "isActive docs_link \<and> \<not> expired (now (sample_env 0)) docs_link"
    by (simp add: docs_link_def expired_def)
  have s: "snd (failing_tracker (link_id docs_link) (get_req ''docs01'') sample_db) = Some store_down"
    by (simp add: failing_tracker_def)
  note h = redirect_independent_of_tracker
    [of failing_tracker "sample_env 0" sample_db "get_req ''docs01''" idle_tracker
        sample_handlers GetShortCode docs_link store_down]
  from h have e: "reply (redirect failing_tracker (sample_env 0) sample_db (get_req ''docs01''))
          = reply (redirect idle_tracker (sample_env 0) sample_db (get_req ''docs01''))"
    by blast
  from h f c a
  have p: "redirect_handler (sample_env 0) sample_db (get_req ''docs01'') =
            (Responded (Redirect 302 (originalUrl docs_link)),
             [FindUnique (params_shortCode (get_req ''docs01'')),
              TrackClick (link_id docs_link) (get_req ''docs01'')],
             Some (Track (link_id docs_link) (get_req ''docs01'')))"
    by blast
  from h f c a s
  have r: "reply (redirect failing_tracker (sample_env 0) sample_db (get_req ''docs01''))
          = Responded (Redirect 302 (originalUrl docs_link))"
    and t: "trace (redirect failing_tracker (sample_env 0) sample_db (get_req ''docs01''))
          = [FindUnique (params_shortCode (get_req ''docs01'')),
             TrackClick (link_id docs_link) (get_req ''docs01''), ConsoleError store_down]"
    by blast+
  from e r have "reply (redirect idle_tracker (sample_env 0) sample_db (get_req ''docs01''))
          = Responded (Redirect 302 (originalUrl docs_link))"
    by simp
  with p r t show ?thesis
    by (simp add: docs_link_def get_req_def)
qed

subsection \<open>Error responses\<close>

lemma errorHandler_json:
  assumes "carries_body (effective_status err)" and "effective_status err \<le> 999"
  shows "errorHandler ev err =
           Json (effective_status err)
             ([(''success'', JBool False),
               (''message'', JStr (case message err of
                                     None \<Rightarrow> ''Internal Server Error''
                                   | Some m \<Rightarrow> if m = [] then ''Internal Server Error'' else m))]
              @ (if node_env ev = Some ''development''
                 then (case stack err of None \<Rightarrow> [] | Some s \<Rightarrow> [(''stack'', JStr s)])
                 else []))"
  using assms by (auto simp: errorHandler_def Let_def carries_body_def)

lemma error_shape_errorHandler:
  "carries_body (effective_status err) \<Longrightarrow> effective_status err \<le> 999 \<Longrightarrow>
   error_shape (errorHandler ev err)"
  by (simp add: errorHandler_json error_shape_def)

lemma status_of_errorHandler:
  "carries_body (effective_status err) \<Longrightarrow> effective_status err \<le> 999 \<Longrightarrow>
   status_of (errorHandler ev err) = effective_status err"
  by (simp add: errorHandler_json status_of_def)

lemma has_stack_errorHandler:
  "carries_body (effective_status err) \<Longrightarrow> effective_status err \<le> 999 \<Longrightarrow>
   has_stack (errorHandler ev err) \<Longrightarrow> node_env ev = Some ''development''"
  by (simp add: errorHandler_json has_stack_def split: if_splits)

lemma effective_status_default:
  "status err = None \<Longrightarrow>
   effective_status err = 500 \<and> carries_body (effective_status err)"
  by (simp add: effective_status_def carries_body_def)

lemma app_redirect_fault:
  "parsers h req d = (Continue req1, d1) \<Longrightarrow> lookup_fault ev = Some e \<Longrightarrow>
   fst (app h tc ev d GetShortCode req) = errorHandler ev e"
  by (simp add: app_def redirect_fault)

lemma app_redirect_dead:
  "parsers h req d = (Continue req1, d1) \<Longrightarrow> lookup_fault ev = None \<Longrightarrow>
   unresolvable (now ev) (find (\<lambda>l. shortCode l = params_shortCode req1) (links d1)) \<Longrightarrow>
   fst (app h tc ev d GetShortCode req) = Send 404 ''Not Found''"
  by (simp add: app_def redirect_dead)

text \<open>
  C4, as stated, fails: the 404 of the resolver for an unknown code is the plain text
  \<^verbatim>\<open>Not Found\<close>, not a body of the shape \<^verbatim>\<open>{success: false, message}\<close>.
\<close>

theorem resolve_404_body_counterexample:
  "status_of (fst (app sample_handlers idle_tracker (sample_env 0) sample_db GetShortCode
                    (get_req ''nocode''))) = 404
   \<and> \<not> error_shape (fst (app sample_handlers idle_tracker (sample_env 0) sample_db GetShortCode
                    (get_req ''nocode'')))"
proof -
  have "fst (app sample_handlers idle_tracker (sample_env 0) sample_db GetShortCode
               (get_req ''nocode'')) = Send 404 ''Not Found''"
    by (rule app_redirect_dead [where ?req1.0 = "get_req ''nocode''" and ?d1.0 = sample_db])
       (simp_all add: sample_handlers_def pass_def sample_env_def get_req_def
          sample_lookups unresolvable_def)
  then show ?thesis
    by (simp add: status_of_def error_shape_def)
qed

text \<open>
  C4, amended. Let the status of an error, \<^verbatim>\<open>err.status || 500\<close>, be one with
  which a body is delivered: at least 200, at most 999, and none of 204, 205, 304; an
  error without a status, such as a failure of the store, is of this kind, with 500.
  Then the response of the error-handling middleware has that status and a body of the
  shape \<^verbatim>\<open>{success: false, message}\<close>, and carries \<^verbatim>\<open>stack\<close> only when
  \<^verbatim>\<open>NODE_ENV\<close> is \<^verbatim>\<open>development\<close>. The response of the final 404 handler
  has the shape too, without a stack. An error of the third-party middleware or of the
  store lookup of the resolver is answered by the error-handling middleware. The 404 of
  the resolver itself has the plain-text body \<^verbatim>\<open>Not Found\<close>.
\<close>

theorem error_responses_shape:
  "(carries_body (effective_status err) \<and> effective_status err \<le> 999
      \<longrightarrow> error_shape (errorHandler ev err)
        \<and> status_of (errorHandler ev err) = effective_status err
        \<and> (has_stack (errorHandler ev err) \<longrightarrow> node_env ev = Some ''development''))
   \<and> (status err = None
      \<longrightarrow> error_shape (errorHandler ev err) \<and> status_of (errorHandler ev err) = 500)
   \<and> error_shape routeNotFound \<and> \<not> has_stack routeNotFound
   \<and> fst (finish ev (Fail err, d)) = errorHandler ev err
   \<and> (parsers h req d = (Fail e, d1) \<longrightarrow> fst (app h tc ev d rt req) = errorHandler ev e)
   \<and> (parsers h req d = (Continue req1, d1)
        \<longrightarrow> fst (app h tc ev d Unrouted req) = routeNotFound)
   \<and> (parsers h req d = (Continue req1, d1) \<and> lookup_fault ev = Some e
        \<longrightarrow> fst (app h tc ev d GetShortCode req) = errorHandler ev e)
   \<and> (parsers h req d = (Continue req1, d1) \<and> lookup_fault ev = None
        \<and> unresolvable (now ev) (find (\<lambda>l. shortCode l = params_shortCode req1) (links d1))
        \<longrightarrow> fst (app h tc ev d GetShortCode req) = Send 404 ''Not Found'')"
proof -
  have "carries_body (effective_status err) \<and> effective_status err \<le> 999
      \<longrightarrow> error_shape (errorHandler ev err)
        \<and> status_of (errorHandler ev err) = effective_status err
        \<and> (has_stack (errorHandler ev err) \<longrightarrow> node_env ev = Some ''development'')"
    using has_stack_errorHandler [of err ev]
    by (simp add: error_shape_errorHandler status_of_errorHandler)
  moreover have "status err = None
      \<longrightarrow> error_shape (errorHandler ev err) \<and> status_of (errorHandler ev err) = 500"
    using effective_status_default [of err]
    by (auto simp: error_shape_errorHandler status_of_errorHandler)
  moreover have "error_shape routeNotFound \<and> \<not> has_stack routeNotFound"
    by (simp add: error_shape_def has_stack_def routeNotFound_def)
  moreover have "fst (finish ev (Fail err, d)) = errorHandler ev err"
    by (simp add: finish_def)
  moreover have "parsers h req d = (Fail e, d1) \<longrightarrow> fst (app h tc ev d rt req) = errorHandler ev e"
    by (simp add: app_def)
  moreover have "parsers h req d = (Continue req1, d1)
        \<longrightarrow> fst (app h tc ev d Unrouted req) = routeNotFound"
    by (simp add: app_def)
  moreover have "parsers h req d = (Continue req1, d1) \<and> lookup_fault ev = Some e
        \<longrightarrow> fst (app h tc ev d GetShortCode req) = errorHandler ev e"
    by (simp add: app_redirect_fault)
  moreover have "parsers h req d = (Continue req1, d1) \<and> lookup_fault ev = None
        \<and> unresolvable (now ev) (find (\<lambda>l. shortCode l = params_shortCode req1) (links d1))
        \<longrightarrow> fst (app h tc ev d GetShortCode req) = Send 404 ''Not Found''"
    by (simp add: app_redirect_dead)
  ultimately show ?thesis
    by blast
qed

theorem error_responses_shape_witness:
  "carries_body (effective_status store_down) \<and> effective_status store_down \<le> 999
   \<and> fst (app sample_handlers idle_tracker down_dev_env sample_db GetShortCode (get_req ''docs01''))
     = Json 500 [(''success'', JBool False), (''message'', JStr ''Database unreachable''),
                 (''stack'', JStr ''trace'')]
   \<and> error_shape (errorHandler down_dev_env store_down)
   \<and> has_stack (errorHandler down_dev_env store_down)
   \<and> node_env down_dev_env = Some ''development''
   \<and> fst (app sample_handlers idle_tracker (sample_env 0) sample_db GetShortCode (get_req ''gone01''))
     = Send 404 ''Not Found''"
proof -
  have p: "parsers sample_handlers r sample_db = (Continue r, sample_db)" for r
    by (simp add: sample_handlers_def pass_def)
  have f: "lookup_fault down_dev_env = Some store_down"
    by (simp add: down_dev_env_def)
  have c: "carries_body (effective_status store_down) \<and> effective_status store_down \<le> 999"
    by (simp add: effective_status_def carries_body_def store_down_def)
  have s: "has_stack (errorHandler down_dev_env store_down)"
    by (simp add: has_stack_def errorHandler_def effective_status_def carries_body_def
        down_dev_env_def store_down_def)
  have n: "lookup_fault (sample_env 0) = None"
    by (simp add: sample_env_def)
  have u: "unresolvable (now (sample_env 0))
             (find (\<lambda>l. shortCode l = params_shortCode (get_req ''gone01'')) (links sample_db))"
    by (simp add: get_req_def sample_lookups unresolvable_def gone_link_def)
  from error_responses_shape
    [of store_down down_dev_env sample_db sample_handlers "get_req ''docs01''" store_down
        sample_db idle_tracker GetShortCode "get_req ''docs01''"] p f s c
  have "fst (app sample_handlers idle_tracker down_dev_env sample_db GetShortCode (get_req ''docs01''))
          = errorHandler down_dev_env store_down"
    and "error_shape (errorHandler down_dev_env store_down)"
    and "node_env down_dev_env = Some ''development''"
    by blast+
  moreover
  from error_responses_shape
    [of store_down "sample_env 0" sample_db sample_handlers "get_req ''gone01''" store_down
        sample_db idle_tracker GetShortCode "get_req ''gone01''"] p n u
  have "fst (app sample_handlers idle_tracker (sample_env 0) sample_db GetShortCode (get_req ''gone01''))
          = Send 404 ''Not Found''"
    by blast
  ultimately show ?thesis
    using s c
    by (simp add: errorHandler_def effective_status_def carries_body_def
        down_dev_env_def store_down_def)
qed

text \<open>Two statuses with which the error-handling middleware delivers no JSON body.\<close>

lemma errorHandler_refused_status:
  "errorHandler ev \<lparr>status = Some 1000, message = Some ''x'', stack = None\<rparr>
     = ErrorPage 500 (node_env ev \<noteq> Some ''production'')"
  "errorHandler ev \<lparr>status = Some 204, message = Some ''x'', stack = None\<rparr> = Send 204 []"
  by (simp_all add: errorHandler_def effective_status_def carries_body_def)

end
